theory Spec2Isabelle
  imports Complex_Main "HOL-Library.Multiset"
begin

section \<open>Values of the JavaScript runtime\<close>

text \<open>
  A JavaScript number as far as this program looks at it: the result of \<open>parseFloat\<close> is
  tested with \<open>isNaN\<close> and handed to the insert. A finite value is kept as the exact
  decimal the text denotes (the rounding to the nearest double is not modelled; \<open>2.5\<close> and
  \<open>0\<close> are doubles and need none).
\<close>

datatype jsnum = NaN | PosInfinity | NegInfinity | Num rat

text \<open>
  What \<open>await\<close> gives: the value of a fulfilled promise, or the reason of a rejected one,
  which \<open>await\<close> throws inside the enclosing \<open>try\<close>.
\<close>

datatype 'a awaited = Resolved 'a | Rejected string

text \<open>
  The \<open>{ data, error }\<close> object of the data service; \<open>None\<close> is \<open>null\<close>.
\<close>

record 'a response =
  data :: "'a option"
  error :: "string option"

text \<open>
  The values the three operations throw or catch: \<open>new Error(message)\<close>, the \<open>error\<close>
  field of a response, and the reason of a rejected promise.
\<close>

datatype exn = Error string | PostgrestError string | Rejection string

text \<open>
  The requests sent to the tables of the data service.
  \<open>Select table from to\<close> is \<open>from(table).select(...).range(from, to).order('created_at', desc)\<close>;
  \<open>Insert_post content image_url odds confidence user_id likes comments shares\<close> and
  \<open>Insert_news title source content image_url user_id likes comments shares\<close> are the
  rows of the two inserts;
  \<open>Insert_like table idField id user_id\<close> and \<open>Delete_like table idField id user_id\<close>
  are the insert and the delete on a like table.
\<close>

datatype request =
    Select string nat nat
  | Insert_post string "string option" jsnum jsnum string int int int
  | Insert_news string "string option" string "string option" string int int int
  | Insert_like string string string string
  | Delete_like string string string string

text \<open>
  What a call did besides changing the state it owns: the requests it sent, in order, the
  labels it wrote with \<open>console.error\<close>, and the exception that leaves the call, if any.
\<close>

record effects =
  issued :: "request list"
  logged :: "string list"
  thrown :: "exn option"

definition no_effects :: effects where
  "no_effects = \<lparr>issued = [], logged = [], thrown = None\<rparr>"

text \<open>The signed-in user of the authentication service; \<open>uid\<close> is its \<open>id\<close>.\<close>

record auth_user =
  uid :: string

section \<open>The feed item\<close>

record profile =
  username :: string
  avatar_url :: string

text \<open>
  One row of the feed, in the shape the item view declares for its \<open>post\<close> property: the
  fields of \<open>Post\<close> and of \<open>News\<close> together, those of one kind only being optional, and
  the optional \<open>isLiked\<close>. \<open>None\<close> is an absent field (\<open>undefined\<close>) or \<open>null\<close>.
  \<open>ident\<close> is the field \<open>id\<close>. A row of the \<open>posts\<close> table has no \<open>title\<close>; a row of
  the \<open>news\<close> table has one.
\<close>

record feed_item =
  ident :: string
  title :: "string option"
  source :: "string option"
  content :: string
  image_url :: "string option"
  odds :: "jsnum option"
  confidence :: "jsnum option"
  created_at :: string
  likes :: int
  comments :: int
  shares :: int
  user :: profile
  isLiked :: "bool option"

section \<open>Library functions of JavaScript used by the program\<close>

subsection \<open>Array.prototype.sort with a comparator\<close>

text \<open>
  \<open>xs.sort(cmp)\<close> is a stable sort (since ECMAScript 2019): \<open>a\<close> comes before \<open>b\<close>
  when \<open>cmp(a, b) < 0\<close>, and elements that compare equal keep their order. Insertion
  from the right end of the array computes that order.
\<close>

fun insert_by :: "('a \<Rightarrow> 'a \<Rightarrow> int) \<Rightarrow> 'a \<Rightarrow> 'a list \<Rightarrow> 'a list" where
  "insert_by cmp x [] = [x]"
| "insert_by cmp x (y # ys) = (if cmp x y \<le> 0 then x # y # ys else y # insert_by cmp x ys)"

definition sort_by :: "('a \<Rightarrow> 'a \<Rightarrow> int) \<Rightarrow> 'a list \<Rightarrow> 'a list" where
  "sort_by cmp xs = foldr (insert_by cmp) xs []"

subsection \<open>String.prototype.replace with a string pattern\<close>

text \<open>Only the first occurrence of the pattern, here one character, is replaced.\<close>

fun replace_first :: "char \<Rightarrow> char \<Rightarrow> string \<Rightarrow> string" where
  "replace_first a b [] = []"
| "replace_first a b (c # cs) = (if c = a then b # cs else c # replace_first a b cs)"

subsection \<open>parseFloat\<close>

text \<open>
  \<open>parseFloat\<close> drops leading white space and reads the longest prefix of the rest that is
  a \<open>StrDecimalLiteral\<close>: an optional sign, then \<open>Infinity\<close>, or digits with an optional
  fraction and an optional exponent, or a fraction starting with the point. It is \<open>NaN\<close>
  when no prefix is one. Strings are taken over the code units below 256.
\<close>

definition isWhiteSpace :: "char \<Rightarrow> bool" where
  "isWhiteSpace c = ((of_char c :: nat) \<in> {9, 10, 11, 12, 13, 32, 160})"

definition isDigit :: "char \<Rightarrow> bool" where
  "isDigit c = (48 \<le> (of_char c :: nat) \<and> (of_char c :: nat) \<le> 57)"

definition digitValue :: "char \<Rightarrow> nat" where
  "digitValue c = of_char c - 48"

definition decimalValue :: "string \<Rightarrow> nat" where
  "decimalValue ds = foldl (\<lambda>a c. 10 * a + digitValue c) 0 ds"

definition pow10 :: "int \<Rightarrow> rat" where
  "pow10 e = (if 0 \<le> e then 10 ^ nat e else 1 / 10 ^ nat (- e))"

text \<open>
  The exponent at the start of the text: \<open>e\<close> or \<open>E\<close>, an optional sign and at least one
  digit. Anything else is no exponent part, and the literal ends before it.
\<close>

definition signedInteger :: "string \<Rightarrow> int option" where
  "signedInteger s =
     (case s of
        [] \<Rightarrow> None
      | c # r \<Rightarrow>
          if c = CHR ''+'' then
            (if takeWhile isDigit r = [] then None
             else Some (int (decimalValue (takeWhile isDigit r))))
          else if c = CHR ''-'' then
            (if takeWhile isDigit r = [] then None
             else Some (- int (decimalValue (takeWhile isDigit r))))
          else
            (if takeWhile isDigit s = [] then None
             else Some (int (decimalValue (takeWhile isDigit s)))))"

definition exponentPart :: "string \<Rightarrow> int" where
  "exponentPart s =
     (case s of
        [] \<Rightarrow> 0
      | c # r \<Rightarrow>
          if c = CHR ''e'' then (case signedInteger r of None \<Rightarrow> 0 | Some e \<Rightarrow> e)
          else if c = CHR ''E'' then (case signedInteger r of None \<Rightarrow> 0 | Some e \<Rightarrow> e)
          else 0)"

definition strUnsignedDecimalLiteral :: "string \<Rightarrow> jsnum" where
  "strUnsignedDecimalLiteral s =
     (if take 8 s = ''Infinity'' then PosInfinity
      else
        let ip = takeWhile isDigit s; r1 = dropWhile isDigit s in
        (case r1 of
           [] \<Rightarrow> (if ip = [] then NaN else Num (of_nat (decimalValue ip)))
         | c # r2 \<Rightarrow>
             if c = CHR ''.'' then
               (let fp = takeWhile isDigit r2; r3 = dropWhile isDigit r2 in
                if ip = [] \<and> fp = [] then NaN
                else Num (of_nat (decimalValue (ip @ fp)) / 10 ^ length fp * pow10 (exponentPart r3)))
             else if ip = [] then NaN
             else Num (of_nat (decimalValue ip) * pow10 (exponentPart r1))))"

definition negate :: "jsnum \<Rightarrow> jsnum" where
  "negate v = (case v of NaN \<Rightarrow> NaN | PosInfinity \<Rightarrow> NegInfinity
               | NegInfinity \<Rightarrow> PosInfinity | Num r \<Rightarrow> Num (- r))"

definition strDecimalLiteral :: "string \<Rightarrow> jsnum" where
  "strDecimalLiteral s =
     (case s of
        [] \<Rightarrow> NaN
      | c # r \<Rightarrow>
          if c = CHR ''+'' then strUnsignedDecimalLiteral r
          else if c = CHR ''-'' then negate (strUnsignedDecimalLiteral r)
          else strUnsignedDecimalLiteral s)"

definition parseFloat :: "string \<Rightarrow> jsnum" where
  "parseFloat s = strDecimalLiteral (dropWhile isWhiteSpace s)"

definition isNaN :: "jsnum \<Rightarrow> bool" where
  "isNaN v = (case v of NaN \<Rightarrow> True | _ \<Rightarrow> False)"

section \<open>The feed store (PostContext.tsx)\<close>

text \<open>
  The four state cells of the provider. They start as \<open>initial_state\<close>.
\<close>

record state =
  posts :: "feed_item list"
  loading :: bool
  hasMore :: bool
  page :: nat

definition initial_state :: state where
  "initial_state = \<lparr>posts = [], loading = False, hasMore = True, page = 0\<rparr>"

definition POSTS_PER_PAGE :: nat where
  "POSTS_PER_PAGE = 20"

subsection \<open>fetchMorePosts\<close>

text \<open>The range query of one table for page \<open>pg\<close>.\<close>

definition select_page :: "string \<Rightarrow> nat \<Rightarrow> request" where
  "select_page table pg = Select table (pg * POSTS_PER_PAGE) ((pg + 1) * POSTS_PER_PAGE - 1)"

text \<open>\<open>response.data || []\<close>\<close>

definition or_empty :: "'a list option \<Rightarrow> 'a list" where
  "or_empty d = (case d of None \<Rightarrow> [] | Some xs \<Rightarrow> xs)"

text \<open>
  The comparator of the sort, \<open>new Date(b.created_at).getTime() - new Date(a.created_at).getTime()\<close>.
  The reading of a timestamp text as milliseconds is the runtime's; it is the parameter
  \<open>getTime\<close>, taken to give a time for every row (the column is filled by the database).
\<close>

definition by_created_at_desc :: "(string \<Rightarrow> int) \<Rightarrow> feed_item \<Rightarrow> feed_item \<Rightarrow> int" where
  "by_created_at_desc getTime a b = getTime (created_at b) - getTime (created_at a)"

definition allContent :: "(string \<Rightarrow> int) \<Rightarrow> feed_item list option \<Rightarrow> feed_item list option \<Rightarrow> feed_item list" where
  "allContent getTime postsData newsData =
     sort_by (by_created_at_desc getTime) (or_empty postsData @ or_empty newsData)"

definition uniqueContent :: "feed_item list \<Rightarrow> feed_item list \<Rightarrow> feed_item list" where
  "uniqueContent held all =
     filter (\<lambda>newItem. \<not> list_ex (\<lambda>existingItem. ident existingItem = ident newItem) held) all"

text \<open>
  One call of \<open>fetchMorePosts\<close> on the state \<open>s\<close>; \<open>postsResult\<close> and \<open>newsResult\<close>
  are what the two queries of \<open>Promise.all\<close> give. The result is the state when the call
  has settled, and what the call did. Both queries are started before either is awaited.
  The \<open>catch\<close> logs and does not rethrow, and the \<open>finally\<close> clears \<open>loading\<close>.
  Calls follow one another, so the list the filter reads (\<open>posts\<close> of the render) and the
  list the update appends to (\<open>prev\<close>) are the same list, \<open>posts s\<close>.
\<close>

definition fetch_queries :: "state \<Rightarrow> request list" where
  "fetch_queries s = [select_page ''posts'' (page s), select_page ''news'' (page s)]"

definition fetch_failed :: "state \<Rightarrow> state \<times> effects" where
  "fetch_failed s =
     (s\<lparr>loading := False\<rparr>,
      \<lparr>issued = fetch_queries s, logged = [''Error fetching content:''], thrown = None\<rparr>)"

definition fetchMorePosts ::
  "(string \<Rightarrow> int) \<Rightarrow> feed_item list response awaited \<Rightarrow> feed_item list response awaited
     \<Rightarrow> state \<Rightarrow> state \<times> effects" where
  "fetchMorePosts getTime postsResult newsResult s =
     (if loading s then (s, no_effects)
      else if \<not> hasMore s then (s, no_effects)
      else
        (case postsResult of
           Rejected e \<Rightarrow> fetch_failed s
         | Resolved postsResponse \<Rightarrow>
            (case newsResult of
               Rejected e \<Rightarrow> fetch_failed s
             | Resolved newsResponse \<Rightarrow>
                (case error postsResponse of
                   Some e \<Rightarrow> fetch_failed s
                 | None \<Rightarrow>
                    (case error newsResponse of
                       Some e \<Rightarrow> fetch_failed s
                     | None \<Rightarrow>
                        let unique = uniqueContent (posts s)
                                       (allContent getTime (data postsResponse) (data newsResponse))
                        in (s\<lparr>posts := posts s @ unique,
                              hasMore := (length unique = POSTS_PER_PAGE),
                              page := page s + 1,
                              loading := False\<rparr>,
                            \<lparr>issued = fetch_queries s, logged = [], thrown = None\<rparr>))))))"

subsection \<open>addPost and addNews\<close>

text \<open>
  The arguments of \<open>addPost\<close> and \<open>addNews\<close>; \<open>np_text\<close>, \<open>np_image\<close>, \<open>np_confidence\<close>
  are the fields \<open>text\<close>, \<open>image\<close>, \<open>confidence\<close>, and \<open>nn_title\<close>, \<open>nn_source\<close>,
  \<open>nn_content\<close>, \<open>nn_image\<close> the fields \<open>title\<close>, \<open>source\<close>, \<open>content\<close>, \<open>image\<close>.
  \<open>totalOdds\<close> is declared a string; \<open>None\<close> is the missing value that
  \<open>newPost.totalOdds || '0'\<close> provides for.
\<close>

record newPost =
  np_text :: string
  np_image :: "string option"
  totalOdds :: "string option"
  np_confidence :: jsnum

record newNews =
  nn_title :: string
  nn_source :: string
  nn_content :: string
  nn_image :: "string option"

text \<open>\<open>(newPost.totalOdds || '0').replace(',', '.')\<close>\<close>

definition oddsString :: "string option \<Rightarrow> string" where
  "oddsString t =
     replace_first (CHR '','') (CHR ''.'')
       (case t of None \<Rightarrow> ''0'' | Some v \<Rightarrow> if v = [] then ''0'' else v)"

text \<open>
  The part after the insert that \<open>addPost\<close> and \<open>addNews\<close> share: a rejected insert or an
  \<open>error\<close> in the response is logged under \<open>label\<close> and rethrown; a returned row is put in
  front of the list.
\<close>

definition after_insert ::
  "string \<Rightarrow> request \<Rightarrow> feed_item response awaited \<Rightarrow> state \<Rightarrow> state \<times> effects" where
  "after_insert label req r s =
     (case r of
        Rejected e \<Rightarrow> (s, \<lparr>issued = [req], logged = [label], thrown = Some (Rejection e)\<rparr>)
      | Resolved resp \<Rightarrow>
         (case error resp of
            Some e \<Rightarrow> (s, \<lparr>issued = [req], logged = [label], thrown = Some (PostgrestError e)\<rparr>)
          | None \<Rightarrow>
             (case data resp of
                None \<Rightarrow> (s, \<lparr>issued = [req], logged = [], thrown = None\<rparr>)
              | Some row \<Rightarrow> (s\<lparr>posts := row # posts s\<rparr>,
                             \<lparr>issued = [req], logged = [], thrown = None\<rparr>))))"

definition add_failed :: "string \<Rightarrow> exn \<Rightarrow> state \<Rightarrow> state \<times> effects" where
  "add_failed label x s = (s, \<lparr>issued = [], logged = [label], thrown = Some x\<rparr>)"

text \<open>
  \<open>getUser\<close> is what \<open>await supabase.auth.getUser()\<close> gave, \<open>inserted\<close> what the awaited
  insert gave. \<open>issued\<close> lists the requests to the tables. Every exception is logged
  and thrown again by the \<open>catch\<close>.
\<close>

definition addPost ::
  "auth_user option awaited \<Rightarrow> newPost \<Rightarrow> feed_item response awaited \<Rightarrow> state
     \<Rightarrow> state \<times> effects" where
  "addPost getUser np inserted s =
     (case getUser of
        Rejected e \<Rightarrow> add_failed ''Error adding post:'' (Rejection e) s
      | Resolved None \<Rightarrow> add_failed ''Error adding post:'' (Error ''User not authenticated'') s
      | Resolved (Some u) \<Rightarrow>
          let parsed = parseFloat (oddsString (totalOdds np)) in
          if isNaN parsed then add_failed ''Error adding post:'' (Error ''Invalid odds value'') s
          else
            let req = Insert_post (np_text np) (np_image np) parsed (np_confidence np) (uid u) 0 0 0
            in after_insert ''Error adding post:'' req inserted s)"

text \<open>\<open>newNews.source || null\<close>\<close>

definition or_null :: "string \<Rightarrow> string option" where
  "or_null v = (if v = [] then None else Some v)"

definition addNews ::
  "auth_user option awaited \<Rightarrow> newNews \<Rightarrow> feed_item response awaited \<Rightarrow> state
     \<Rightarrow> state \<times> effects" where
  "addNews getUser nn inserted s =
     (case getUser of
        Rejected e \<Rightarrow> add_failed ''Error adding news:'' (Rejection e) s
      | Resolved None \<Rightarrow> add_failed ''Error adding news:'' (Error ''User not authenticated'') s
      | Resolved (Some u) \<Rightarrow>
          let req = Insert_news (nn_title nn) (or_null (nn_source nn)) (nn_content nn)
                      (nn_image nn) (uid u) 0 0 0
          in after_insert ''Error adding news:'' req inserted s)"

section \<open>The like toggle of the item view (Post.tsx)\<close>

text \<open>
  The truth of an optional text and of an optional flag in a condition: absent and empty
  are false.
\<close>

definition truthy_string :: "string option \<Rightarrow> bool" where
  "truthy_string v = (case v of None \<Rightarrow> False | Some t \<Rightarrow> t \<noteq> [])"

definition truthy_flag :: "bool option \<Rightarrow> bool" where
  "truthy_flag v = (case v of None \<Rightarrow> False | Some b \<Rightarrow> b)"

text \<open>
  The like table and its item column: \<open>post.title ? 'news_likes' : 'post_likes'\<close> and
  \<open>post.title ? 'news_id' : 'post_id'\<close>.
\<close>

definition like_table :: "feed_item \<Rightarrow> string" where
  "like_table post = (if truthy_string (title post) then ''news_likes'' else ''post_likes'')"

definition like_idField :: "feed_item \<Rightarrow> string" where
  "like_idField post = (if truthy_string (title post) then ''news_id'' else ''post_id'')"

text \<open>
  One activation of \<open>handleLike\<close>. \<open>usr\<close> is the user of the authentication context,
  \<open>post\<close> the property of the component and \<open>requested\<close> what the awaited request gave.
  The state cell appears twice. \<open>localPost\<close> is its value in the render whose callback
  runs: the branch test and the request read it. \<open>prev\<close> is its value when the updater
  runs, after the \<open>await\<close>: the update is \<open>setLocalPost(prev => ...)\<close>. The two are the
  same value when the activation starts after every earlier one has settled and the
  component has rendered again; they differ when an earlier activation of the same render
  settles in between. The response of the request is not looked at: the state changes
  whenever the \<open>await\<close> returns, and when it throws the \<open>catch\<close> only logs, so the state
  update after it is skipped.
\<close>

definition handleLike ::
  "auth_user option \<Rightarrow> feed_item \<Rightarrow> unit awaited \<Rightarrow> feed_item \<Rightarrow> feed_item
     \<Rightarrow> feed_item \<times> effects" where
  "handleLike usr post requested localPost prev =
     (case usr of
        None \<Rightarrow> (prev, no_effects)
      | Some u \<Rightarrow>
          if truthy_flag (isLiked localPost) then
            (let req = Delete_like (like_table post) (like_idField post) (ident localPost) (uid u) in
             case requested of
               Rejected e \<Rightarrow>
                 (prev, \<lparr>issued = [req], logged = [''Error toggling like:''], thrown = None\<rparr>)
             | Resolved r \<Rightarrow>
                 (prev\<lparr>likes := likes prev - 1, isLiked := Some False\<rparr>,
                  \<lparr>issued = [req], logged = [], thrown = None\<rparr>))
          else
            (let req = Insert_like (like_table post) (like_idField post) (ident localPost) (uid u) in
             case requested of
               Rejected e \<Rightarrow>
                 (prev, \<lparr>issued = [req], logged = [''Error toggling like:''], thrown = None\<rparr>)
             | Resolved r \<Rightarrow>
                 (prev\<lparr>likes := likes prev + 1, isLiked := Some True\<rparr>,
                  \<lparr>issued = [req], logged = [], thrown = None\<rparr>)))"

text \<open>
  An activation on a settled component: the render and the updater see the same value.
\<close>

definition handleLike_settled ::
  "auth_user option \<Rightarrow> feed_item \<Rightarrow> unit awaited \<Rightarrow> feed_item \<Rightarrow> feed_item \<times> effects" where
  "handleLike_settled usr post requested localPost = handleLike usr post requested localPost localPost"

section \<open>The statements of the specification\<close>

text \<open>
  A query of \<open>fetchMorePosts\<close> fails when its promise is rejected or its response carries
  an \<open>error\<close>.
\<close>

definition query_failed :: "'a response awaited \<Rightarrow> bool" where
  "query_failed r = (case r of Rejected e \<Rightarrow> True | Resolved resp \<Rightarrow> error resp \<noteq> None)"

text \<open>
  The merge as the specification words it, to compare with \<open>allContent\<close> and
  \<open>uniqueContent\<close>: the rows sorted by creation time, newest first, rows of equal time in
  the order of the concatenation; then the rows whose identifier is not the identifier of
  a held item.
\<close>

definition spec_sorted_desc :: "(string \<Rightarrow> int) \<Rightarrow> feed_item list \<Rightarrow> feed_item list" where
  "spec_sorted_desc getTime rows = sort_key (\<lambda>i. - getTime (created_at i)) rows"

definition spec_new_items ::
  "(string \<Rightarrow> int) \<Rightarrow> feed_item list \<Rightarrow> feed_item list \<Rightarrow> feed_item list \<Rightarrow> feed_item list" where
  "spec_new_items getTime held postRows newsRows =
     filter (\<lambda>i. ident i \<notin> ident ` set held) (spec_sorted_desc getTime (postRows @ newsRows))"

text \<open>
  A run of calls in which each call starts when the one before has settled and the
  provider has rendered again, so that each call reads the state the one before left; each
  call comes with the results of its two queries. Calls started from one render, before
  the first of them has settled, are not such a run. \<open>result_rows\<close> are the rows a query
  result brings (none when it failed).
\<close>

definition result_rows :: "feed_item list response awaited \<Rightarrow> feed_item list" where
  "result_rows r = (case r of Rejected e \<Rightarrow> [] | Resolved resp \<Rightarrow> or_empty (data resp))"

fun fetch_all ::
  "(string \<Rightarrow> int) \<Rightarrow> (feed_item list response awaited \<times> feed_item list response awaited) list
     \<Rightarrow> state \<Rightarrow> state" where
  "fetch_all getTime [] s = s"
| "fetch_all getTime ((postsResult, newsResult) # rest) s =
     fetch_all getTime rest (fst (fetchMorePosts getTime postsResult newsResult s))"

section \<open>Sample data\<close>

text \<open>
  Rows for the worked examples: \<open>sample_item i t c\<close> has identifier \<open>i\<close>, title \<open>t\<close> and
  creation time \<open>c\<close>; \<open>sample_time\<close> reads a creation time written as a count of
  milliseconds; \<open>fetched rows\<close> is a query that succeeded with \<open>rows\<close>; \<open>sample_posts n\<close>
  and \<open>sample_news n\<close> are \<open>n\<close> rows of each table with identifiers \<open>p\<close>, \<open>pp\<close>, ... and
  \<open>n\<close>, \<open>nn\<close>, ...
\<close>

definition sample_item :: "string \<Rightarrow> string option \<Rightarrow> string \<Rightarrow> feed_item" where
  "sample_item i t c =
     \<lparr>ident = i, title = t, source = None, content = ''text'', image_url = None,
      odds = None, confidence = None, created_at = c, likes = 0, comments = 0, shares = 0,
      user = \<lparr>username = ''ann'', avatar_url = ''a.png''\<rparr>, isLiked = None\<rparr>"

definition sample_time :: "string \<Rightarrow> int" where
  "sample_time c = int (decimalValue c)"

definition fetched :: "feed_item list \<Rightarrow> feed_item list response awaited" where
  "fetched rows = Resolved \<lparr>data = Some rows, error = None\<rparr>"

definition sample_posts :: "nat \<Rightarrow> feed_item list" where
  "sample_posts n = map (\<lambda>k. sample_item (replicate (Suc k) (CHR ''p'')) None ''5'') [0..<n]"

definition sample_news :: "nat \<Rightarrow> feed_item list" where
  "sample_news n =
     map (\<lambda>k. sample_item (replicate (Suc k) (CHR ''n'')) (Some ''headline'') ''7'') [0..<n]"

definition sample_user :: auth_user where
  "sample_user = \<lparr>uid = ''u1''\<rparr>"

definition sample_newPost :: "string option \<Rightarrow> newPost" where
  "sample_newPost t = \<lparr>np_text = ''home win'', np_image = None, totalOdds = t, np_confidence = Num 80\<rparr>"

section \<open>The sort and the filter of the merge\<close>

lemma insert_by_insort:
  "insert_by (by_created_at_desc getTime) x ys = insort_key (\<lambda>i. - getTime (created_at i)) x ys"
  by (induction ys) (simp_all add: by_created_at_desc_def)

lemma sort_by_sort_key:
  "sort_by (by_created_at_desc getTime) xs = sort_key (\<lambda>i. - getTime (created_at i)) xs"
  by (induction xs) (simp_all add: sort_by_def sort_key_def insert_by_insort)

lemma allContent_spec_sorted:
  "allContent getTime pd nd = spec_sorted_desc getTime (or_empty pd @ or_empty nd)"
  by (simp add: allContent_def spec_sorted_desc_def sort_by_sort_key)

lemma uniqueContent_filter:
  "uniqueContent held rows = filter (\<lambda>i. ident i \<notin> ident ` set held) rows"
  unfolding uniqueContent_def by (rule filter_cong) (auto simp: list_ex_iff image_iff)

lemma uniqueContent_spec_new_items:
  "uniqueContent held (allContent getTime pd nd)
     = spec_new_items getTime held (or_empty pd) (or_empty nd)"
  by (simp add: uniqueContent_filter allContent_spec_sorted spec_new_items_def)

lemma length_allContent:
  "length (allContent getTime pd nd) = length (or_empty pd) + length (or_empty nd)"
  by (simp add: allContent_spec_sorted spec_sorted_desc_def)

lemma uniqueContent_Nil: "uniqueContent [] rows = rows"
  by (simp add: uniqueContent_def)

text \<open>The sorted rows are the given rows, each as often as given, newest first.\<close>

lemma spec_sorted_desc_newest_first:
  "sorted_wrt (\<lambda>a b. getTime (created_at b) \<le> getTime (created_at a)) (spec_sorted_desc getTime rows)"
proof -
  have "sorted (map (\<lambda>i. - getTime (created_at i)) (spec_sorted_desc getTime rows))"
    unfolding spec_sorted_desc_def by (rule sorted_sort_key)
  then show ?thesis
    by (simp add: sorted_map sorted_wrt_iff_nth_less)
qed

lemma spec_sorted_desc_mset: "mset (spec_sorted_desc getTime rows) = mset rows"
  by (simp add: spec_sorted_desc_def)

text \<open>Rows of equal time keep the order of the concatenation.\<close>

lemma spec_sorted_desc_stable:
  "filter (\<lambda>i. getTime (created_at i) = t) (spec_sorted_desc getTime rows)
     = filter (\<lambda>i. getTime (created_at i) = t) rows"
proof -
  have "filter (\<lambda>i. - getTime (created_at i) = - t) (sort_key (\<lambda>i. - getTime (created_at i)) rows)
          = filter (\<lambda>i. - getTime (created_at i) = - t) rows"
    by (rule sort_key_stable)
  then show ?thesis
    by (simp add: spec_sorted_desc_def)
qed

section \<open>fetchMorePosts\<close>

text \<open>What a call that passes the guard and gets two error-free responses computes.\<close>

lemma fetchMorePosts_ok:
  assumes "\<not> loading s" "hasMore s" "error pr = None" "error nr = None"
  shows "fetchMorePosts getTime (Resolved pr) (Resolved nr) s =
           (s\<lparr>posts := posts s @ uniqueContent (posts s) (allContent getTime (data pr) (data nr)),
              hasMore := (length (uniqueContent (posts s) (allContent getTime (data pr) (data nr)))
                            = POSTS_PER_PAGE),
              page := page s + 1, loading := False\<rparr>,
            \<lparr>issued = fetch_queries s, logged = [], thrown = None\<rparr>)"
  using assms by (simp add: fetchMorePosts_def Let_def)

lemma length_sample: "length (sample_posts n) = n" "length (sample_news n) = n"
  by (simp_all add: sample_posts_def sample_news_def)

lemma sample_merge:
  "spec_new_items sample_time [sample_item ''a'' None ''9'']
      [sample_item ''b'' None ''5'', sample_item ''a'' None ''9''] [sample_item ''c'' (Some ''T'') ''7'']
   = [sample_item ''c'' (Some ''T'') ''7'', sample_item ''b'' None ''5'']"
  by (simp add: spec_new_items_def spec_sorted_desc_def sample_time_def sample_item_def
      decimalValue_def digitValue_def)

text \<open>
  C5: in a state where \<open>loading\<close> is true or \<open>hasMore\<close> is false, \<open>fetchMorePosts\<close> does
  nothing: it sends no query, and the list, \<open>loading\<close>, \<open>hasMore\<close> and the page counter
  are the ones it was called with.
\<close>

theorem fetchMorePosts_guard_noop:
  assumes "loading s \<or> \<not> hasMore s"
  shows "fetchMorePosts getTime postsResult newsResult s
           = (s, \<lparr>issued = [], logged = [], thrown = None\<rparr>)"
  using assms by (auto simp: fetchMorePosts_def no_effects_def)

theorem fetchMorePosts_guard_noop_witness:
  "(loading (initial_state\<lparr>loading := True\<rparr>) \<or> \<not> hasMore (initial_state\<lparr>loading := True\<rparr>))
   \<and> fetchMorePosts sample_time (fetched (sample_posts 3)) (fetched (sample_news 2))
        (initial_state\<lparr>loading := True\<rparr>)
     = (\<lparr>posts = [], loading = True, hasMore = True, page = 0\<rparr>,
        \<lparr>issued = [], logged = [], thrown = None\<rparr>)"
  using fetchMorePosts_guard_noop [of "initial_state\<lparr>loading := True\<rparr>" sample_time
      "fetched (sample_posts 3)" "fetched (sample_news 2)"]
  by (simp add: initial_state_def)

text \<open>
  C3: a call that passes the guard and whose two queries succeed leaves the old list with
  the new items appended: the two result sets concatenated, sorted by creation time with
  the newest first, without the rows whose identifier is held already. \<open>hasMore\<close> becomes
  true exactly when the number of these new items is 20, the page counter grows by one,
  and \<open>loading\<close> is cleared. The two queries ask for rows \<open>20 * page\<close> to \<open>20 * page + 19\<close>.
\<close>

theorem fetchMorePosts_success:
  assumes "\<not> loading s" and "hasMore s"
    and "postsResult = Resolved \<lparr>data = pd, error = None\<rparr>"
    and "newsResult = Resolved \<lparr>data = nd, error = None\<rparr>"
  shows "fetchMorePosts getTime postsResult newsResult s =
           (s\<lparr>posts := posts s @ spec_new_items getTime (posts s) (or_empty pd) (or_empty nd),
              hasMore := (length (spec_new_items getTime (posts s) (or_empty pd) (or_empty nd)) = 20),
              page := page s + 1,
              loading := False\<rparr>,
            \<lparr>issued = [Select ''posts'' (page s * 20) (page s * 20 + 19),
                       Select ''news'' (page s * 20) (page s * 20 + 19)],
             logged = [], thrown = None\<rparr>)"
  using assms
  by (simp add: fetchMorePosts_ok uniqueContent_spec_new_items POSTS_PER_PAGE_def
      fetch_queries_def select_page_def)

theorem fetchMorePosts_success_witness:
  "fetchMorePosts sample_time
      (Resolved \<lparr>data = Some [sample_item ''b'' None ''5'', sample_item ''a'' None ''9''], error = None\<rparr>)
      (Resolved \<lparr>data = Some [sample_item ''c'' (Some ''T'') ''7''], error = None\<rparr>)
      (initial_state\<lparr>posts := [sample_item ''a'' None ''9'']\<rparr>)
   = (\<lparr>posts = [sample_item ''a'' None ''9'', sample_item ''c'' (Some ''T'') ''7'',
                sample_item ''b'' None ''5''],
       loading = False, hasMore = False, page = 1\<rparr>,
      \<lparr>issued = [Select ''posts'' 0 19, Select ''news'' 0 19], logged = [], thrown = None\<rparr>)"
  using fetchMorePosts_success [of "initial_state\<lparr>posts := [sample_item ''a'' None ''9'']\<rparr>"
      "Resolved \<lparr>data = Some [sample_item ''b'' None ''5'', sample_item ''a'' None ''9''], error = None\<rparr>"
      "Some [sample_item ''b'' None ''5'', sample_item ''a'' None ''9'']"
      "Resolved \<lparr>data = Some [sample_item ''c'' (Some ''T'') ''7''], error = None\<rparr>"
      "Some [sample_item ''c'' (Some ''T'') ''7'']" sample_time]
  by (simp add: initial_state_def or_empty_def sample_merge)

text \<open>
  C4: when a call passes the guard and one of its two queries fails, the list, \<open>hasMore\<close>
  and the page counter stay as they were, \<open>loading\<close> ends false, and nothing is thrown to
  the caller: the failure is logged only. (A call stopped by the guard runs no query.)
\<close>

theorem fetchMorePosts_query_failure:
  assumes "\<not> loading s" and "hasMore s"
    and "query_failed postsResult \<or> query_failed newsResult"
  shows "posts (fst (fetchMorePosts getTime postsResult newsResult s)) = posts s
       \<and> hasMore (fst (fetchMorePosts getTime postsResult newsResult s)) = hasMore s
       \<and> page (fst (fetchMorePosts getTime postsResult newsResult s)) = page s
       \<and> loading (fst (fetchMorePosts getTime postsResult newsResult s)) = False
       \<and> thrown (snd (fetchMorePosts getTime postsResult newsResult s)) = None
       \<and> logged (snd (fetchMorePosts getTime postsResult newsResult s)) = [''Error fetching content:'']"
  using assms
  by (auto simp: fetchMorePosts_def query_failed_def fetch_failed_def
      split: awaited.splits option.splits)

theorem fetchMorePosts_query_failure_witness:
  "query_failed (Resolved \<lparr>data = None, error = Some ''timeout''\<rparr> :: feed_item list response awaited)
   \<and> fetchMorePosts sample_time (fetched (sample_posts 3))
        (Resolved \<lparr>data = None, error = Some ''timeout''\<rparr>)
        (initial_state\<lparr>posts := [sample_item ''a'' None ''9''], page := 2\<rparr>)
     = (\<lparr>posts = [sample_item ''a'' None ''9''], loading = False, hasMore = True, page = 2\<rparr>,
        \<lparr>issued = [Select ''posts'' 40 59, Select ''news'' 40 59],
         logged = [''Error fetching content:''], thrown = None\<rparr>)"
  using fetchMorePosts_query_failure [of "initial_state\<lparr>posts := [sample_item ''a'' None ''9''], page := 2\<rparr>"
      "fetched (sample_posts 3)" "Resolved \<lparr>data = None, error = Some ''timeout''\<rparr>" sample_time]
  by (simp add: initial_state_def query_failed_def fetchMorePosts_def fetch_failed_def fetched_def
      fetch_queries_def select_page_def POSTS_PER_PAGE_def)


text \<open>
  C2, as the code has it: after a call that passes the guard and whose two queries
  succeed, \<open>hasMore\<close> is true exactly when the number of newly unique items equals 20. It
  is false for fewer than 20 and also for more than 20.
\<close>

theorem fetchMorePosts_hasMore_iff_full_page:
  assumes "\<not> loading s" and "hasMore s"
    and "error postsResponse = None" and "error newsResponse = None"
  shows "hasMore (fst (fetchMorePosts getTime (Resolved postsResponse) (Resolved newsResponse) s))
           = (length (uniqueContent (posts s)
                (allContent getTime (data postsResponse) (data newsResponse))) = 20)"
  using assms by (simp add: fetchMorePosts_ok POSTS_PER_PAGE_def)

theorem fetchMorePosts_hasMore_iff_full_page_witness:
  "hasMore (fst (fetchMorePosts sample_time (fetched (sample_posts 12)) (fetched (sample_news 8)) initial_state))
   \<and> length (uniqueContent (posts initial_state)
        (allContent sample_time (Some (sample_posts 12)) (Some (sample_news 8)))) = 20"
  using fetchMorePosts_hasMore_iff_full_page [of initial_state
      "\<lparr>data = Some (sample_posts 12), error = None\<rparr>"
      "\<lparr>data = Some (sample_news 8), error = None\<rparr>" sample_time]
  by (simp add: initial_state_def fetched_def uniqueContent_Nil length_allContent or_empty_def length_sample)

text \<open>
  C2 as stated fails: from the empty list, 15 prediction rows and 10 news rows, all with
  different identifiers, give 25 new items, a list of 25 and page 1, and \<open>hasMore\<close> is
  false.
\<close>

theorem fetchMorePosts_25_unique_no_more:
  "distinct (map ident (sample_posts 15 @ sample_news 10))
   \<and> length (uniqueContent (posts initial_state)
       (allContent sample_time (Some (sample_posts 15)) (Some (sample_news 10)))) = 25
   \<and> length (posts (fst (fetchMorePosts sample_time (fetched (sample_posts 15))
                (fetched (sample_news 10)) initial_state))) = 25
   \<and> page (fst (fetchMorePosts sample_time (fetched (sample_posts 15))
                (fetched (sample_news 10)) initial_state)) = 1
   \<and> hasMore (fst (fetchMorePosts sample_time (fetched (sample_posts 15))
                (fetched (sample_news 10)) initial_state)) = False"
proof -
  let ?u = "uniqueContent (posts initial_state)
       (allContent sample_time (Some (sample_posts 15)) (Some (sample_news 10)))"
  have n: "length ?u = 25"
    by (simp add: initial_state_def uniqueContent_Nil length_allContent or_empty_def length_sample)
  have d: "distinct (map ident (sample_posts 15 @ sample_news 10))"
    by code_simp
  have ok: "fetchMorePosts sample_time (fetched (sample_posts 15)) (fetched (sample_news 10)) initial_state
      = (initial_state\<lparr>posts := posts initial_state @ ?u, hasMore := (length ?u = POSTS_PER_PAGE),
            page := page initial_state + 1, loading := False\<rparr>,
         \<lparr>issued = fetch_queries initial_state, logged = [], thrown = None\<rparr>)"
    unfolding fetched_def by (subst fetchMorePosts_ok) (simp_all add: initial_state_def)
  have p: "posts initial_state = []" "page initial_state = 0"
    by (simp_all add: initial_state_def)
  show ?thesis
    unfolding ok using n d by (simp add: p POSTS_PER_PAGE_def)
qed

subsection \<open>Identifiers in the held list\<close>

text \<open>
  A call never appends a row whose identifier is in the list it reads. So the identifiers
  in the list stay distinct over a run of calls, each started when the one before has
  settled, in which no fetched page brings the same identifier twice.
\<close>

lemma fetchMorePosts_keeps_distinct:
  assumes "distinct (map ident (posts s))"
    and "distinct (map ident (or_empty (data pr) @ or_empty (data nr)))"
  shows "distinct (map ident (posts (fst (fetchMorePosts getTime (Resolved pr) (Resolved nr) s))))"
proof (cases "\<not> loading s \<and> hasMore s \<and> error pr = None \<and> error nr = None")
  case True
  let ?rows = "or_empty (data pr) @ or_empty (data nr)"
  let ?new = "spec_new_items getTime (posts s) (or_empty (data pr)) (or_empty (data nr))"
  have "mset (map ident (spec_sorted_desc getTime ?rows)) = mset (map ident ?rows)"
    by (simp add: spec_sorted_desc_mset)
  then have "distinct (map ident (spec_sorted_desc getTime ?rows))"
    using assms(2) by (metis distinct_count_atmost_1 set_mset_mset)
  then have "distinct (map ident ?new)"
    unfolding spec_new_items_def by (rule distinct_map_filter)
  moreover have "set (map ident (posts s)) \<inter> set (map ident ?new) = {}"
    by (auto simp: spec_new_items_def) (metis imageI)
  ultimately show ?thesis
    using True assms(1) by (simp add: fetchMorePosts_ok uniqueContent_spec_new_items)
next
  case False
  then have "posts (fst (fetchMorePosts getTime (Resolved pr) (Resolved nr) s)) = posts s"
    by (auto simp: fetchMorePosts_def fetch_failed_def split: option.splits)
  then show ?thesis
    using assms(1) by simp
qed

lemma fetchMorePosts_step_distinct:
  assumes "distinct (map ident (posts s))"
    and "distinct (map ident (result_rows postsResult @ result_rows newsResult))"
  shows "distinct (map ident (posts (fst (fetchMorePosts getTime postsResult newsResult s))))"
proof (cases postsResult)
  case (Resolved pr)
  note p = this
  show ?thesis
  proof (cases newsResult)
    case (Resolved nr)
    with p assms show ?thesis
      by (simp add: result_rows_def fetchMorePosts_keeps_distinct)
  next
    case (Rejected e)
    with p assms(1) show ?thesis
      by (simp add: fetchMorePosts_def fetch_failed_def)
  qed
next
  case (Rejected e)
  with assms(1) show ?thesis
    by (simp add: fetchMorePosts_def fetch_failed_def)
qed

lemma fetch_all_keeps_distinct:
  assumes "distinct (map ident (posts s))"
    and "\<forall>(p, n) \<in> set rs. distinct (map ident (result_rows p @ result_rows n))"
  shows "distinct (map ident (posts (fetch_all getTime rs s)))"
  using assms
proof (induction rs arbitrary: s)
  case Nil
  then show ?case by simp
next
  case (Cons r rs)
  obtain p n where r: "r = (p, n)"
    by (cases r)
  have "distinct (map ident (posts (fst (fetchMorePosts getTime p n s))))"
    using Cons.prems r by (intro fetchMorePosts_step_distinct) auto
  then show ?case
    using Cons.IH Cons.prems(2) r by simp
qed

text \<open>
  C1: the filter compares the fetched rows with the held list only, not with each other.
  When a prediction and a news item of the same page have the same identifier, both are
  appended, and the list holds two items with that identifier.
\<close>

theorem fetchMorePosts_same_page_collision:
  "posts (fst (fetchMorePosts sample_time
       (fetched [sample_item ''x'' None ''9''])
       (fetched [sample_item ''x'' (Some ''T'') ''7'']) initial_state))
     = [sample_item ''x'' None ''9'', sample_item ''x'' (Some ''T'') ''7'']
   \<and> \<not> distinct (map ident (posts (fst (fetchMorePosts sample_time
       (fetched [sample_item ''x'' None ''9''])
       (fetched [sample_item ''x'' (Some ''T'') ''7'']) initial_state))))"
  by (simp add: fetchMorePosts_def fetched_def initial_state_def uniqueContent_def allContent_def
      or_empty_def sort_by_def by_created_at_desc_def sample_time_def sample_item_def
      decimalValue_def digitValue_def)

section \<open>addPost and addNews\<close>

lemma parseFloat_2_50: "parseFloat (oddsString (Some ''2,50'')) = Num (5 / 2)"
  by (simp add: parseFloat_def oddsString_def strDecimalLiteral_def strUnsignedDecimalLiteral_def
      isWhiteSpace_def isDigit_def decimalValue_def digitValue_def exponentPart_def pow10_def)

lemma parseFloat_abc: "parseFloat (oddsString (Some ''abc'')) = NaN"
  by (simp add: parseFloat_def oddsString_def strDecimalLiteral_def strUnsignedDecimalLiteral_def
      isWhiteSpace_def isDigit_def)

lemma parseFloat_default:
  "parseFloat (oddsString None) = Num 0" "parseFloat (oddsString (Some [])) = Num 0"
  by (simp_all add: parseFloat_def oddsString_def strDecimalLiteral_def strUnsignedDecimalLiteral_def
      isWhiteSpace_def isDigit_def decimalValue_def digitValue_def)

lemma issued_after_insert: "issued (snd (after_insert label req r s)) = [req]"
  by (simp add: after_insert_def split: awaited.splits option.splits)

lemma thrown_after_insert: "thrown (snd (after_insert label req r s)) \<noteq> Some (Error m)"
  by (simp add: after_insert_def split: awaited.splits option.splits)

text \<open>
  C6: for a signed-in user, the odds text is parsed after its comma is replaced by a
  point. \<open>2,50\<close> is read as 2.5 and the insert is sent with these odds. When the parsed
  value is not a number, as for \<open>abc\<close>, the call throws the error \<open>Invalid odds value\<close>
  (the specification's InvalidInput), no insert is sent and the state is unchanged.
\<close>

theorem addPost_odds_parsing:
  "oddsString (Some ''2,50'') = ''2.50''
   \<and> parseFloat (oddsString (Some ''2,50'')) = Num (5 / 2)
   \<and> addPost (Resolved (Some u)) (np\<lparr>totalOdds := Some ''2,50''\<rparr>) inserted s
       = after_insert ''Error adding post:''
           (Insert_post (np_text np) (np_image np) (Num (5 / 2)) (np_confidence np) (uid u) 0 0 0)
           inserted s
   \<and> issued (snd (addPost (Resolved (Some u)) (np\<lparr>totalOdds := Some ''2,50''\<rparr>) inserted s))
       = [Insert_post (np_text np) (np_image np) (Num (5 / 2)) (np_confidence np) (uid u) 0 0 0]
   \<and> (isNaN (parseFloat (oddsString (totalOdds np))) \<longrightarrow>
        addPost (Resolved (Some u)) np inserted s
          = (s, \<lparr>issued = [], logged = [''Error adding post:''],
                  thrown = Some (Error ''Invalid odds value'')\<rparr>))
   \<and> addPost (Resolved (Some u)) (np\<lparr>totalOdds := Some ''abc''\<rparr>) inserted s
          = (s, \<lparr>issued = [], logged = [''Error adding post:''],
                  thrown = Some (Error ''Invalid odds value'')\<rparr>)"
proof -
  have a: "oddsString (Some ''2,50'') = ''2.50''"
    by (simp add: oddsString_def)
  have b: "addPost (Resolved (Some u)) (np\<lparr>totalOdds := Some ''2,50''\<rparr>) inserted s
       = after_insert ''Error adding post:''
           (Insert_post (np_text np) (np_image np) (Num (5 / 2)) (np_confidence np) (uid u) 0 0 0)
           inserted s"
    by (simp add: addPost_def parseFloat_2_50 isNaN_def)
  have c: "isNaN (parseFloat (oddsString (totalOdds np))) \<longrightarrow>
        addPost (Resolved (Some u)) np inserted s
          = (s, \<lparr>issued = [], logged = [''Error adding post:''],
                  thrown = Some (Error ''Invalid odds value'')\<rparr>)"
    by (simp add: addPost_def add_failed_def)
  have d: "addPost (Resolved (Some u)) (np\<lparr>totalOdds := Some ''abc''\<rparr>) inserted s
          = (s, \<lparr>issued = [], logged = [''Error adding post:''],
                  thrown = Some (Error ''Invalid odds value'')\<rparr>)"
    by (simp add: addPost_def parseFloat_abc isNaN_def add_failed_def)
  from a b c d parseFloat_2_50 show ?thesis
    by (simp add: issued_after_insert)
qed

theorem addPost_odds_parsing_witness:
  "isNaN (parseFloat (oddsString (totalOdds (sample_newPost (Some ''1,5x'')))))  = False
   \<and> isNaN (parseFloat (oddsString (totalOdds (sample_newPost (Some '',5,''))))) = False
   \<and> isNaN (parseFloat (oddsString (totalOdds (sample_newPost (Some ''x1,5'')))))
   \<and> addPost (Resolved (Some sample_user)) (sample_newPost (Some ''x1,5'')) (Rejected ''unused'') initial_state
       = (initial_state, \<lparr>issued = [], logged = [''Error adding post:''],
               thrown = Some (Error ''Invalid odds value'')\<rparr>)
   \<and> addPost (Resolved (Some sample_user)) (sample_newPost (Some ''2,50''))
        (Resolved \<lparr>data = Some (sample_item ''n1'' None ''9''), error = None\<rparr>) initial_state
       = (initial_state\<lparr>posts := [sample_item ''n1'' None ''9'']\<rparr>,
          \<lparr>issued = [Insert_post ''home win'' None (Num (5 / 2)) (Num 80) ''u1'' 0 0 0], logged = [],
            thrown = None\<rparr>)"
  using addPost_odds_parsing [of sample_user "sample_newPost (Some ''x1,5'')" "Rejected ''unused''" initial_state]
    addPost_odds_parsing [of sample_user "sample_newPost (Some ''2,50'')"
       "Resolved \<lparr>data = Some (sample_item ''n1'' None ''9''), error = None\<rparr>" initial_state]
  by (simp add: parseFloat_def oddsString_def strDecimalLiteral_def strUnsignedDecimalLiteral_def
      isWhiteSpace_def isDigit_def decimalValue_def digitValue_def exponentPart_def pow10_def isNaN_def
      sample_newPost_def sample_user_def after_insert_def initial_state_def)

text \<open>
  C7: without a signed-in user, \<open>addPost\<close> and \<open>addNews\<close> throw the error
  \<open>User not authenticated\<close> (the specification's AuthenticationRequired), send no insert
  and leave the state, so the held list, unchanged.
\<close>

theorem add_requires_user:
  "addPost (Resolved None) np inserted s
     = (s, \<lparr>issued = [], logged = [''Error adding post:''],
             thrown = Some (Error ''User not authenticated'')\<rparr>)
   \<and> addNews (Resolved None) nn inserted' s
     = (s, \<lparr>issued = [], logged = [''Error adding news:''],
             thrown = Some (Error ''User not authenticated'')\<rparr>)"
  by (simp add: addPost_def addNews_def add_failed_def)

text \<open>
  C10: for a signed-in user, a missing or empty odds text is replaced by \<open>0\<close>: the call
  does not throw \<open>Invalid odds value\<close> and sends the insert with odds 0.
\<close>

theorem addPost_default_odds:
  "oddsString None = ''0'' \<and> oddsString (Some []) = ''0''
   \<and> addPost (Resolved (Some u)) (np\<lparr>totalOdds := None\<rparr>) inserted s
     = after_insert ''Error adding post:''
         (Insert_post (np_text np) (np_image np) (Num 0) (np_confidence np) (uid u) 0 0 0) inserted s
   \<and> addPost (Resolved (Some u)) (np\<lparr>totalOdds := Some []\<rparr>) inserted s
     = after_insert ''Error adding post:''
         (Insert_post (np_text np) (np_image np) (Num 0) (np_confidence np) (uid u) 0 0 0) inserted s
   \<and> issued (snd (addPost (Resolved (Some u)) (np\<lparr>totalOdds := None\<rparr>) inserted s))
     = [Insert_post (np_text np) (np_image np) (Num 0) (np_confidence np) (uid u) 0 0 0]
   \<and> issued (snd (addPost (Resolved (Some u)) (np\<lparr>totalOdds := Some []\<rparr>) inserted s))
     = [Insert_post (np_text np) (np_image np) (Num 0) (np_confidence np) (uid u) 0 0 0]
   \<and> thrown (snd (addPost (Resolved (Some u)) (np\<lparr>totalOdds := None\<rparr>) inserted s))
     \<noteq> Some (Error ''Invalid odds value'')
   \<and> thrown (snd (addPost (Resolved (Some u)) (np\<lparr>totalOdds := Some []\<rparr>) inserted s))
     \<noteq> Some (Error ''Invalid odds value'')"
proof -
  have a: "oddsString None = ''0''" "oddsString (Some []) = ''0''"
    by (simp_all add: oddsString_def)
  have b: "addPost (Resolved (Some u)) (np\<lparr>totalOdds := None\<rparr>) inserted s
     = after_insert ''Error adding post:''
         (Insert_post (np_text np) (np_image np) (Num 0) (np_confidence np) (uid u) 0 0 0) inserted s"
    by (simp add: addPost_def parseFloat_default isNaN_def)
  have c: "addPost (Resolved (Some u)) (np\<lparr>totalOdds := Some []\<rparr>) inserted s
     = after_insert ''Error adding post:''
         (Insert_post (np_text np) (np_image np) (Num 0) (np_confidence np) (uid u) 0 0 0) inserted s"
    by (simp add: addPost_def parseFloat_default isNaN_def)
  show ?thesis
    unfolding b c by (simp add: a issued_after_insert thrown_after_insert)
qed

section \<open>handleLike\<close>

text \<open>
  C9: without a signed-in user an activation of the like toggle does nothing: no request
  is sent, and the local item, with its counter and its \<open>isLiked\<close> flag, is unchanged,
  whatever the render saw.
\<close>

theorem handleLike_no_user:
  "handleLike None post requested localPost prev
     = (prev, \<lparr>issued = [], logged = [], thrown = None\<rparr>)
   \<and> handleLike_settled None post requested localPost
     = (localPost, \<lparr>issued = [], logged = [], thrown = None\<rparr>)"
  by (simp add: handleLike_def handleLike_settled_def no_effects_def)

text \<open>
  C8 as stated fails, in two ways, both from an item with counter 5 that is not liked.
  Two activations of the same render, the second started before the request of the first
  has returned: both take the insert branch and both updaters add one, so the counter
  ends at 7 and \<open>isLiked\<close> at true, neither request throwing. And two activations one
  after the other where the request of the first throws: the state is left alone, and the
  second activation likes the item, so the counter ends at 6 and \<open>isLiked\<close> at true.
\<close>

theorem handleLike_twice_not_restored:
  "likes ((sample_item ''a'' None ''9'')\<lparr>likes := 5, isLiked := Some False\<rparr>) = 5
   \<and> likes (fst (handleLike (Some sample_user) (sample_item ''a'' None ''9'') (Resolved ())
           ((sample_item ''a'' None ''9'')\<lparr>likes := 5, isLiked := Some False\<rparr>)
           (fst (handleLike (Some sample_user) (sample_item ''a'' None ''9'') (Resolved ())
                  ((sample_item ''a'' None ''9'')\<lparr>likes := 5, isLiked := Some False\<rparr>)
                  ((sample_item ''a'' None ''9'')\<lparr>likes := 5, isLiked := Some False\<rparr>)))))
     = 7
   \<and> isLiked (fst (handleLike (Some sample_user) (sample_item ''a'' None ''9'') (Resolved ())
           ((sample_item ''a'' None ''9'')\<lparr>likes := 5, isLiked := Some False\<rparr>)
           (fst (handleLike (Some sample_user) (sample_item ''a'' None ''9'') (Resolved ())
                  ((sample_item ''a'' None ''9'')\<lparr>likes := 5, isLiked := Some False\<rparr>)
                  ((sample_item ''a'' None ''9'')\<lparr>likes := 5, isLiked := Some False\<rparr>)))))
     = Some True
   \<and> likes (fst (handleLike_settled (Some sample_user) (sample_item ''a'' None ''9'') (Resolved ())
           (fst (handleLike_settled (Some sample_user) (sample_item ''a'' None ''9'')
                  (Rejected ''network'')
                  ((sample_item ''a'' None ''9'')\<lparr>likes := 5, isLiked := Some False\<rparr>)))))
     = 6
   \<and> isLiked (fst (handleLike_settled (Some sample_user) (sample_item ''a'' None ''9'') (Resolved ())
           (fst (handleLike_settled (Some sample_user) (sample_item ''a'' None ''9'')
                  (Rejected ''network'')
                  ((sample_item ''a'' None ''9'')\<lparr>likes := 5, isLiked := Some False\<rparr>)))))
     = Some True"
  by (simp add: handleLike_def handleLike_settled_def truthy_flag_def)

lemma handleLike_like:
  "\<not> truthy_flag (isLiked localPost) \<Longrightarrow>
     handleLike_settled (Some u) post (Resolved ()) localPost
       = (localPost\<lparr>likes := likes localPost + 1, isLiked := Some True\<rparr>,
          \<lparr>issued = [Insert_like (like_table post) (like_idField post) (ident localPost) (uid u)],
            logged = [], thrown = None\<rparr>)"
  by (simp add: handleLike_def handleLike_settled_def)

lemma handleLike_unlike:
  "truthy_flag (isLiked localPost) \<Longrightarrow>
     handleLike_settled (Some u) post (Resolved ()) localPost
       = (localPost\<lparr>likes := likes localPost - 1, isLiked := Some False\<rparr>,
          \<lparr>issued = [Delete_like (like_table post) (like_idField post) (ident localPost) (uid u)],
            logged = [], thrown = None\<rparr>)"
  by (simp add: handleLike_def handleLike_settled_def)

text \<open>
  C8, as the code has it: when the second activation starts after the first has settled
  (its request has returned and the component has rendered again, so that the second
  reads the state the first left) and the request of neither activation throws, two
  activations in a row bring the counter back to its value and the \<open>isLiked\<close> flag back to
  its truth value (an absent flag comes back as false). On an item not liked, the first
  activation adds one and inserts the like record, the second takes one off and deletes
  it.
\<close>

theorem handleLike_twice_restores:
  "likes (fst (handleLike_settled usr post (Resolved ())
         (fst (handleLike_settled usr post (Resolved ()) localPost))))
     = likes localPost
   \<and> truthy_flag (isLiked (fst (handleLike_settled usr post (Resolved ())
         (fst (handleLike_settled usr post (Resolved ()) localPost)))))
     = truthy_flag (isLiked localPost)
   \<and> (\<not> truthy_flag (isLiked localPost) \<longrightarrow>
        handleLike_settled (Some u) post (Resolved ()) localPost
          = (localPost\<lparr>likes := likes localPost + 1, isLiked := Some True\<rparr>,
             \<lparr>issued = [Insert_like (like_table post) (like_idField post) (ident localPost) (uid u)],
               logged = [], thrown = None\<rparr>)
        \<and> handleLike_settled (Some u) post (Resolved ())
             (localPost\<lparr>likes := likes localPost + 1, isLiked := Some True\<rparr>)
          = (localPost\<lparr>likes := likes localPost, isLiked := Some False\<rparr>,
             \<lparr>issued = [Delete_like (like_table post) (like_idField post) (ident localPost) (uid u)],
               logged = [], thrown = None\<rparr>))"
proof -
  have a: "likes (fst (handleLike_settled usr post (Resolved ())
         (fst (handleLike_settled usr post (Resolved ()) localPost))))
     = likes localPost"
    by (cases usr; cases "truthy_flag (isLiked localPost)")
       (simp_all add: handleLike_like handleLike_unlike truthy_flag_def,
        simp_all add: handleLike_def handleLike_settled_def no_effects_def)
  have b: "truthy_flag (isLiked (fst (handleLike_settled usr post (Resolved ())
         (fst (handleLike_settled usr post (Resolved ()) localPost)))))
     = truthy_flag (isLiked localPost)"
    by (cases usr; cases "truthy_flag (isLiked localPost)")
       (simp_all add: handleLike_like handleLike_unlike truthy_flag_def,
        simp_all add: handleLike_def handleLike_settled_def no_effects_def)
  have c: "handleLike_settled (Some u) post (Resolved ())
             (localPost\<lparr>likes := likes localPost + 1, isLiked := Some True\<rparr>)
          = (localPost\<lparr>likes := likes localPost, isLiked := Some False\<rparr>,
             \<lparr>issued = [Delete_like (like_table post) (like_idField post) (ident localPost) (uid u)],
               logged = [], thrown = None\<rparr>)"
    by (simp add: handleLike_unlike truthy_flag_def)
  show ?thesis
    using a b c by (simp add: handleLike_like)
qed

theorem handleLike_twice_restores_witness:
  "\<not> truthy_flag (isLiked (sample_item ''a'' (Some ''T'') ''9''))
   \<and> handleLike_settled (Some sample_user) (sample_item ''a'' (Some ''T'') ''9'') (Resolved ())
        (sample_item ''a'' (Some ''T'') ''9'')
       = ((sample_item ''a'' (Some ''T'') ''9'')\<lparr>likes := 1, isLiked := Some True\<rparr>,
          \<lparr>issued = [Insert_like ''news_likes'' ''news_id'' ''a'' ''u1''], logged = [], thrown = None\<rparr>)
   \<and> handleLike_settled (Some sample_user) (sample_item ''a'' (Some ''T'') ''9'') (Resolved ())
        ((sample_item ''a'' (Some ''T'') ''9'')\<lparr>likes := 1, isLiked := Some True\<rparr>)
       = ((sample_item ''a'' (Some ''T'') ''9'')\<lparr>likes := 0, isLiked := Some False\<rparr>,
          \<lparr>issued = [Delete_like ''news_likes'' ''news_id'' ''a'' ''u1''], logged = [], thrown = None\<rparr>)"
  using handleLike_twice_restores [of "Some sample_user" "sample_item ''a'' (Some ''T'') ''9''"
      "sample_item ''a'' (Some ''T'') ''9''" sample_user]
  by (simp add: sample_item_def sample_user_def truthy_flag_def like_table_def like_idField_def
      truthy_string_def)

end
